theory Spec2Isabelle
  imports Complex_Main "HOL-Library.Word" "HOL-Library.Multiset"
begin

section \<open>Xapian's basic types\<close>

text \<open>
  \<^verbatim>\<open>Xapian::docid\<close>, \<^verbatim>\<open>Xapian::doccount\<close> and \<^verbatim>\<open>Xapian::valueno\<close> are the
  unsigned 32-bit typedefs of \<^verbatim>\<open>xapian/types.h\<close>: counters wrap around at \<open>2 ^ 32\<close>.
  A \<^verbatim>\<open>size_t\<close> that is only compared, never computed with, is a \<open>nat\<close>.
  A \<^verbatim>\<open>double\<close> weight is only compared and copied by the code below (no arithmetic), so
  it is a \<open>real\<close>; NaN weights are outside the model.
\<close>

type_synonym docid = "32 word"
type_synonym doccount = "32 word"
type_synonym valueno = "32 word"

datatype fault = AssertionError | UnimplementedError

section \<open>matcher/valuestreamdocument.h\<close>

text \<open>
  The fields of \<^verbatim>\<open>class ValueStreamDocument\<close>. \<open>valuelists\<close> is the
  \<^verbatim>\<open>std::map<Xapian::valueno, ValueList *>\<close> of cached per-slot cursors, \<open>db\<close> stands
  for \<^verbatim>\<open>db.internal\<close> (the vector of shards, of which the header only takes the size),
  \<open>doc\<close> is the owned pointer \<^verbatim>\<open>Xapian::Document::Internal * doc\<close> (\<open>None\<close> is
  \<^verbatim>\<open>NULL\<close>), and \<open>did\<close> is the document id inherited from the base class
  \<^verbatim>\<open>Xapian::Document::Internal\<close>.
\<close>

record ('vl, 'sh, 'd) ValueStreamDocument =
  valuelists :: "valueno \<rightharpoonup> 'vl"
  db :: "'sh list"
  current :: nat
  doc :: "'d option"
  did :: docid

text \<open>
  The constructor: \<^verbatim>\<open>Internal(db_.internal[0], 0), db(db_), current(0), doc(NULL)\<close>;
  the map starts empty and the base class is given document id 0.
\<close>

definition ValueStreamDocument_new :: "'sh list \<Rightarrow> ('vl, 'sh, 'd) ValueStreamDocument" where
  "ValueStreamDocument_new db0 =
     \<lparr>valuelists = Map.empty, db = db0, current = 0, doc = None, did = 0\<rparr>"

text \<open>
  \<^verbatim>\<open>if (did != shard_did) { did = shard_did; delete doc; doc = NULL; }\<close>
  Deleting the owned object and nulling the pointer leaves \<open>None\<close>; \<^verbatim>\<open>delete\<close> of
  \<^verbatim>\<open>NULL\<close> does nothing.
\<close>

definition set_shard_document ::
  "docid \<Rightarrow> ('vl, 'sh, 'd) ValueStreamDocument \<Rightarrow> ('vl, 'sh, 'd) ValueStreamDocument" where
  "set_shard_document shard_did s =
     (if did s \<noteq> shard_did then s\<lparr>did := shard_did, doc := None\<rparr> else s)"

text \<open>
  Modelled from the spec: the macro \<^verbatim>\<open>AssertEq\<close> is defined in \<^verbatim>\<open>omassert.h\<close>, a file
  outside this development. The specification calls a mismatch a programming-error fault
  that aborts the operation, so a failed assertion is the result \<open>Inl AssertionError\<close> and
  none of the statements after it run.

  \<^verbatim>\<open>shard_number\<close> and \<^verbatim>\<open>shard_docid\<close> are declared in \<^verbatim>\<open>backends/multi.h\<close>, also
  outside this development: they are parameters of the model, both applied to the global
  document id and \<^verbatim>\<open>db.internal.size()\<close> as in the source.
\<close>

definition set_document ::
  "(docid \<Rightarrow> nat \<Rightarrow> nat) \<Rightarrow> (docid \<Rightarrow> nat \<Rightarrow> docid) \<Rightarrow> docid \<Rightarrow>
   ('vl, 'sh, 'd) ValueStreamDocument \<Rightarrow> fault + ('vl, 'sh, 'd) ValueStreamDocument" where
  "set_document shard_number shard_docid gdid s =
     (if current s \<noteq> shard_number gdid (length (db s)) then Inl AssertionError
      else Inr (set_shard_document (shard_docid gdid (length (db s))) s))"

section \<open>matcher/collapser.h\<close>

text \<open>The enumeration reporting how a document was handled by the Collapser.\<close>

datatype collapse_result = EMPTY | ADDED | REJECTED | REPLACED

text \<open>
  \<^verbatim>\<open>class Result\<close> lives in \<^verbatim>\<open>api/result.h\<close>, a file outside this development. The
  header uses its constructor \<^verbatim>\<open>Result(0, 0)\<close> and \<^verbatim>\<open>set_collapse_key\<close>; the
  specification lists its fields: the global document id, the weight, a sort key and the
  collapse key.
\<close>

record Result =
  weight :: real
  docid_of :: docid
  sort_key :: string
  collapse_key :: string

definition Result_new :: "real \<Rightarrow> docid \<Rightarrow> Result" where
  "Result_new w d = \<lparr>weight = w, docid_of = d, sort_key = [], collapse_key = []\<rparr>"

definition set_collapse_key :: "string \<Rightarrow> Result \<Rightarrow> Result" where
  "set_collapse_key k r = r\<lparr>collapse_key := k\<rparr>"

text \<open>
  \<^verbatim>\<open>MSetCmp\<close> (from \<^verbatim>\<open>msetcmp.h\<close>) is the comparison functor of the query's sort order:
  \<open>mcmp a b\<close> holds when \<open>a\<close> ranks before \<open>b\<close>, that is, \<open>a\<close> is the better result. It is
  a parameter of everything below.
\<close>

type_synonym MSetCmp = "Result \<Rightarrow> Result \<Rightarrow> bool"

text \<open>The fields of \<^verbatim>\<open>class CollapseData\<close>.\<close>

record CollapseData =
  items :: "Result list"
  next_best_weight :: real
  collapse_count :: doccount

text \<open>
  \<^verbatim>\<open>explicit CollapseData(const Result& item)
      : items(1, item), next_best_weight(0), collapse_count(0)
  { items[0].set_collapse_key(std::string()); }\<close>
\<close>

definition CollapseData_new :: "Result \<Rightarrow> CollapseData" where
  "CollapseData_new item =
     \<lparr>items = [set_collapse_key [] item], next_best_weight = 0, collapse_count = 0\<rparr>"

definition get_next_best_weight :: "CollapseData \<Rightarrow> real" where
  "get_next_best_weight b = next_best_weight b"

text \<open>
  Modelled from the spec: the heap operations on \<open>items\<close> are in \<^verbatim>\<open>collapser.cc\<close>, a file
  outside this development. The specification asks for a heap by the ``worst-first''
  ordering whose root is the weakest kept item. The model keeps the vector ordered with the
  weakest item in front (an ordered vector is a heap): pushing moves the new item past the
  kept items it is better than and puts it in front of the first one it is not better
  than; the root is the head, and popping the root leaves the tail.
\<close>

fun heap_push :: "MSetCmp \<Rightarrow> Result \<Rightarrow> Result list \<Rightarrow> Result list" where
  "heap_push mcmp x [] = [x]"
| "heap_push mcmp x (y # ys) =
     (if mcmp x y then y # heap_push mcmp x ys else x # y # ys)"

text \<open>
  Modelled from the spec: ``update \<open>next_best_weight\<close> and \<open>collapse_count\<close>'' from a
  rejected or evicted item. \<open>collapse_count\<close> is the number of results rejected for the
  key, so it is incremented. For \<open>next_best_weight\<close> the specification says that it is
  updated from the rejected item (verdict \<open>REJECTED\<close>) or from the evicted item (verdict
  \<open>REPLACED\<close>) and does not give the arithmetic: a running maximum and an assignment both
  fit its words, and they differ. The update is therefore a parameter of the model: \<open>upd\<close>
  takes the verdict, the current \<open>next_best_weight\<close> and the rejected or evicted item, and
  gives the new \<open>next_best_weight\<close>. Nothing is assumed about it.
\<close>

type_synonym weight_update = "collapse_result \<Rightarrow> real \<Rightarrow> Result \<Rightarrow> real"

definition note_rejected ::
  "weight_update \<Rightarrow> collapse_result \<Rightarrow> Result \<Rightarrow> CollapseData \<Rightarrow> CollapseData" where
  "note_rejected upd res r b =
     b\<lparr>next_best_weight := upd res (next_best_weight b) r,
       collapse_count := collapse_count b + 1\<rparr>"

text \<open>
  Modelled from the spec: the body of \<^verbatim>\<open>CollapseData::add_item\<close> is in \<^verbatim>\<open>collapser.cc\<close>,
  a file outside this development; the header declares it. The three cases are those of
  the specification, in its order:
  \<^item> \<open>collapse_max \<le> 1\<close>: there is exactly one slot. A new item strictly better than the
    held one takes the slot, the held item goes to \<open>old_item\<close> and is counted as rejected
    (\<open>REPLACED\<close>); otherwise the new item is counted as rejected (\<open>REJECTED\<close>).
  \<^item> fewer than \<open>collapse_max\<close> items are held: the item is pushed (\<open>ADDED\<close>).
  \<^item> the bucket is full: a new item that is not better than the root is rejected;
    a better one is pushed after the root was popped into \<open>old_item\<close> (\<open>REPLACED\<close>).

  The result is the verdict, the bucket after the call and the contents of the output
  parameter \<^verbatim>\<open>old_item\<close> after the call (unchanged unless the verdict is \<open>REPLACED\<close>).
  The first argument is the update of \<open>next_best_weight\<close> described above.
  Reading the held item or the root of a bucket with no item has no meaning in the
  specification (and is undefined for the vector of the header): the result is \<open>None\<close>.
\<close>

definition add_item ::
  "weight_update \<Rightarrow> Result \<Rightarrow> doccount \<Rightarrow> MSetCmp \<Rightarrow> Result \<Rightarrow> CollapseData \<Rightarrow>
   (collapse_result \<times> CollapseData \<times> Result) option" where
  "add_item upd item cmax mcmp old b =
     (if cmax \<le> 1 then
        (case items b of
           [] \<Rightarrow> None
         | held # rest \<Rightarrow>
             if mcmp item held
             then Some (REPLACED,
                        note_rejected upd REPLACED held (b\<lparr>items := item # rest\<rparr>), held)
             else Some (REJECTED, note_rejected upd REJECTED item b, old))
      else if length (items b) < unat cmax then
        Some (ADDED, b\<lparr>items := heap_push mcmp item (items b)\<rparr>, old)
      else
        (case items b of
           [] \<Rightarrow> None
         | worst # rest \<Rightarrow>
             if \<not> mcmp item worst
             then Some (REJECTED, note_rejected upd REJECTED item b, old)
             else Some (REPLACED,
                        note_rejected upd REPLACED worst
                          (b\<lparr>items := heap_push mcmp item rest\<rparr>), worst)))"

text \<open>The fields of \<^verbatim>\<open>class Collapser\<close>; \<open>table\<close> is the \<^verbatim>\<open>std::unordered_map\<close>.\<close>

record Collapser =
  table :: "string \<rightharpoonup> CollapseData"
  entry_count :: doccount
  no_collapse_key :: doccount
  dups_ignored :: doccount
  docs_considered :: doccount
  slot :: valueno
  collapse_max :: doccount
  old_item :: Result

text \<open>
  \<^verbatim>\<open>Collapser(Xapian::valueno slot_, Xapian::doccount collapse_max_)
      : entry_count(0), no_collapse_key(0), dups_ignored(0), docs_considered(0),
        slot(slot_), collapse_max(collapse_max_), old_item(0, 0) { }\<close>
\<close>

definition Collapser_new :: "valueno \<Rightarrow> doccount \<Rightarrow> Collapser" where
  "Collapser_new slot0 cmax0 =
     \<lparr>table = Map.empty, entry_count = 0, no_collapse_key = 0, dups_ignored = 0,
      docs_considered = 0, slot = slot0, collapse_max = cmax0, old_item = Result_new 0 0\<rparr>"

text \<open>The inline members of the header: \<^verbatim>\<open>operator bool\<close> and the getters.\<close>

definition collapsing_active :: "Collapser \<Rightarrow> bool" where
  "collapsing_active c = (collapse_max c \<noteq> 0)"

definition get_docs_considered :: "Collapser \<Rightarrow> doccount" where
  "get_docs_considered c = docs_considered c"

definition get_dups_ignored :: "Collapser \<Rightarrow> doccount" where
  "get_dups_ignored c = dups_ignored c"

definition entries :: "Collapser \<Rightarrow> doccount" where
  "entries c = entry_count c"

definition empty_table :: "Collapser \<Rightarrow> bool" where
  "empty_table c = (table c = Map.empty)"

text \<open>
  Modelled from the spec: the body of \<^verbatim>\<open>Collapser::process\<close> is in \<^verbatim>\<open>collapser.cc\<close>,
  a file outside this development; the header declares it. The steps are those of the
  specification:
  \<^enum> collapsing disabled (\<open>collapse_max = 0\<close>): \<open>ADDED\<close>, no bookkeeping beyond
    \<open>docs_considered\<close>;
  \<^enum> the collapse key is \<^verbatim>\<open>*key_ptr\<close> when the pointer is given, otherwise the value of
    \<open>slot\<close> in the document view (the parameter \<open>vsdoc\<close>: the values of the active
    document by slot); the item is given the key;
  \<^enum> \<open>docs_considered\<close> is incremented; an empty key increments \<open>no_collapse_key\<close> and the
    verdict is \<open>ADDED\<close>, no bucket touched;
  \<^enum> a key seen for the first time gets a bucket holding the item, \<open>entry_count\<close> is
    incremented, \<open>ADDED\<close>;
  \<^enum> otherwise \<open>add_item\<close> decides: \<open>ADDED\<close> increments \<open>entry_count\<close>, \<open>REJECTED\<close> and
    \<open>REPLACED\<close> increment \<open>dups_ignored\<close>, and what \<open>add_item\<close> left in its output
    parameter is the Collapser's \<open>old_item\<close>.

  The result is the verdict, the item (a reference parameter: it now carries its key) and
  the Collapser after the call.
\<close>

definition process ::
  "weight_update \<Rightarrow> Result \<Rightarrow> string option \<Rightarrow> (valueno \<Rightarrow> string) \<Rightarrow> MSetCmp \<Rightarrow>
   Collapser \<Rightarrow> (collapse_result \<times> Result \<times> Collapser) option" where
  "process upd item key_ptr vsdoc mcmp c =
     (if collapse_max c = 0 then
        Some (ADDED, item, c\<lparr>docs_considered := docs_considered c + 1\<rparr>)
      else
        let key = (case key_ptr of Some k \<Rightarrow> k | None \<Rightarrow> vsdoc (slot c));
            item1 = set_collapse_key key item;
            c1 = c\<lparr>docs_considered := docs_considered c + 1\<rparr>
        in
          if key = [] then
            Some (ADDED, item1, c1\<lparr>no_collapse_key := no_collapse_key c1 + 1\<rparr>)
          else
            (case table c1 key of
               None \<Rightarrow>
                 Some (ADDED, item1,
                       c1\<lparr>table := (table c1)(key \<mapsto> CollapseData_new item1),
                          entry_count := entry_count c1 + 1\<rparr>)
             | Some b \<Rightarrow>
                 (case add_item upd item1 (collapse_max c1) mcmp (old_item c1) b of
                    None \<Rightarrow> None
                  | Some (res, b1, old1) \<Rightarrow>
                      let c2 = c1\<lparr>table := (table c1)(key \<mapsto> b1), old_item := old1\<rparr>
                      in Some (res, item1,
                               (case res of
                                  ADDED \<Rightarrow> c2\<lparr>entry_count := entry_count c2 + 1\<rparr>
                                | REJECTED \<Rightarrow> c2\<lparr>dups_ignored := dups_ignored c2 + 1\<rparr>
                                | REPLACED \<Rightarrow> c2\<lparr>dups_ignored := dups_ignored c2 + 1\<rparr>
                                | EMPTY \<Rightarrow> c2)))))"

text \<open>
  The matching loop, reduced to what it does to the Collapser: one call of \<open>process\<close> per
  candidate, in arrival order. A candidate is the item, the optional precomputed key and
  the values of its document by slot.
\<close>

type_synonym candidate = "Result \<times> string option \<times> (valueno \<Rightarrow> string)"

fun process_all ::
  "weight_update \<Rightarrow> MSetCmp \<Rightarrow> candidate list \<Rightarrow> Collapser \<Rightarrow> Collapser option" where
  "process_all upd mcmp [] c = Some c"
| "process_all upd mcmp ((item, key_ptr, vsdoc) # rest) c =
     (case process upd item key_ptr vsdoc mcmp c of
        None \<Rightarrow> None
      | Some (res, item1, c1) \<Rightarrow> process_all upd mcmp rest c1)"

section \<open>Percentage cutoff and sort order (the query layer)\<close>

text \<open>
  Modelled from the spec: the query layer (\<^verbatim>\<open>Enquire\<close> and its \<^verbatim>\<open>get_mset\<close>) is in files
  outside this development; its test \<^verbatim>\<open>pctcutoff5\<close> in \<^verbatim>\<open>tests/api_percentages.cc\<close>
  shows how it is called. The configuration of a query holds the sort order and the
  percentage cutoff, if one is set.
  The four ways of sorting are by relevance, by value, by value then relevance and by
  relevance then value; the two that put the stored value first carry the slot and the
  direction, as the calls \<^verbatim>\<open>set_sort_by_value(slot, reverse)\<close> and
  \<^verbatim>\<open>set_sort_by_value_then_relevance(slot, reverse)\<close> of the test do.
\<close>

datatype sort_order =
    BY_RELEVANCE
  | BY_VALUE valueno bool
  | BY_VALUE_THEN_RELEVANCE valueno bool
  | BY_RELEVANCE_THEN_VALUE valueno bool

record Enquire =
  sort_by :: sort_order
  percent_cutoff :: "int option"

fun value_primary :: "sort_order \<Rightarrow> bool" where
  "value_primary BY_RELEVANCE = False"
| "value_primary (BY_VALUE s r) = True"
| "value_primary (BY_VALUE_THEN_RELEVANCE s r) = True"
| "value_primary (BY_RELEVANCE_THEN_VALUE s r) = False"

text \<open>
  Modelled from the spec: ``if the active sort order is by stored value (ascending or
  descending, with or without relevance as secondary), a percentage cutoff cannot be
  honored and the call must fail with an unsupported-operation fault''. Everything else
  \<^verbatim>\<open>get_mset(first, maxitems)\<close> does is the matcher's work, a parameter here.
\<close>

definition get_mset ::
  "(Enquire \<Rightarrow> doccount \<Rightarrow> doccount \<Rightarrow> 'mset) \<Rightarrow> Enquire \<Rightarrow> doccount \<Rightarrow> doccount \<Rightarrow>
   fault + 'mset" where
  "get_mset matcher e first maxitems =
     (if percent_cutoff e \<noteq> None \<and> value_primary (sort_by e) then Inl UnimplementedError
      else Inr (matcher e first maxitems))"

section \<open>Invariants of the Collapser\<close>

text \<open>
  A bucket is well-formed for \<open>collapse_max = k\<close> when it holds at least one item and at
  most \<open>max(1, k)\<close>; a Collapser is well-formed when every bucket of its table is.
\<close>

definition bucket_ok :: "doccount \<Rightarrow> CollapseData \<Rightarrow> bool" where
  "bucket_ok k b = (items b \<noteq> [] \<and> length (items b) \<le> max 1 (unat k))"

definition table_ok :: "Collapser \<Rightarrow> bool" where
  "table_ok c = (\<forall>key b. table c key = Some b \<longrightarrow> bucket_ok (collapse_max c) b)"

section \<open>Auxiliary facts\<close>

lemma length_heap_push: "length (heap_push mcmp x xs) = Suc (length xs)"
  by (induction xs) simp_all

lemma mset_heap_push: "mset (heap_push mcmp x xs) = add_mset x (mset xs)"
  by (induction xs) simp_all

lemma heap_push_not_Nil: "heap_push mcmp x xs \<noteq> []"
  by (cases xs) simp_all

lemma items_note_rejected: "items (note_rejected upd res r b) = items b"
  by (simp add: note_rejected_def)

lemma bucket_ok_new: "bucket_ok k (CollapseData_new item)"
  by (simp add: bucket_ok_def CollapseData_new_def)

lemma word_le_one_unat: "((k::doccount) \<le> 1) = (unat k \<le> 1)"
  by (simp add: word_le_nat_alt)

lemma add_item_returns:
  assumes "items b \<noteq> []"
  shows "\<exists>res b1 old1. add_item upd item k mcmp old b = Some (res, b1, old1)"
  using assms by (cases "items b") (simp_all add: add_item_def)

lemma add_item_bucket_ok:
  assumes "bucket_ok k b" and "add_item upd item k mcmp old b = Some (res, b1, old1)"
  shows "bucket_ok k b1"
proof (cases "items b")
  case Nil
  with assms(1) show ?thesis by (simp add: bucket_ok_def)
next
  case (Cons w rest)
  show ?thesis
  proof (cases "k \<le> 1")
    case True
    with assms Cons show ?thesis
      by (auto simp: add_item_def bucket_ok_def items_note_rejected split: if_splits)
  next
    case False
    then have k: "1 < unat k" by (simp add: word_le_one_unat)
    with assms Cons False show ?thesis
      by (auto simp: add_item_def bucket_ok_def items_note_rejected length_heap_push
          heap_push_not_Nil split: if_splits)
  qed
qed

lemma table_ok_new: "table_ok (Collapser_new slot0 k)"
  by (simp add: table_ok_def Collapser_new_def)

lemma add_item_nonempty:
  assumes "items b \<noteq> []" and "add_item upd item k mcmp old b = Some (res, b1, old1)"
  shows "items b1 \<noteq> []"
  using assms
  by (auto simp: add_item_def items_note_rejected heap_push_not_Nil
      split: if_splits list.splits)

lemma process_table_ok:
  assumes "table_ok c"
  shows "\<exists>res item1 c1. process upd item key_ptr vsdoc mcmp c = Some (res, item1, c1) \<and>
           collapse_max c1 = collapse_max c \<and> slot c1 = slot c \<and> table_ok c1"
proof (cases "collapse_max c = 0")
  case True
  with assms show ?thesis by (simp add: process_def table_ok_def)
next
  case active: False
  define key where "key = (case key_ptr of Some k \<Rightarrow> k | None \<Rightarrow> vsdoc (slot c))"
  show ?thesis
  proof (cases "key = []")
    case True
    with assms active show ?thesis
      by (simp add: process_def table_ok_def key_def Let_def)
  next
    case keyed: False
    show ?thesis
    proof (cases "table c key")
      case None
      with assms active keyed show ?thesis
        by (simp add: process_def table_ok_def key_def [symmetric] Let_def bucket_ok_new)
    next
      case (Some b)
      with assms have ok: "bucket_ok (collapse_max c) b" by (simp add: table_ok_def)
      then have "items b \<noteq> []" by (simp add: bucket_ok_def)
      from add_item_returns [OF this]
      obtain res b1 old1 where
        ai: "add_item upd (set_collapse_key key item) (collapse_max c) mcmp (old_item c) b
               = Some (res, b1, old1)"
        by blast
      from add_item_bucket_ok [OF ok ai] have ok1: "bucket_ok (collapse_max c) b1" .
      with assms active keyed Some ai show ?thesis
        by (cases res) (simp_all add: process_def table_ok_def key_def [symmetric] Let_def)
    qed
  qed
qed

lemma process_all_table_ok:
  "table_ok c \<Longrightarrow>
     \<exists>c1. process_all upd mcmp cands c = Some c1 \<and> collapse_max c1 = collapse_max c \<and> table_ok c1"
proof (induction cands arbitrary: c)
  case Nil
  then show ?case by simp
next
  case (Cons cand cands)
  obtain item key_ptr vsdoc where cand: "cand = (item, key_ptr, vsdoc)"
    by (cases cand) auto
  from process_table_ok [OF Cons.prems, of upd item key_ptr vsdoc mcmp]
  obtain res item1 c1 where
    p: "process upd item key_ptr vsdoc mcmp c = Some (res, item1, c1)"
    and k: "collapse_max c1 = collapse_max c" and ok: "table_ok c1"
    by blast
  from Cons.IH [OF ok] k p cand show ?case by simp
qed


lemma add_item_REPLACED:
  assumes "add_item upd item k mcmp old b = Some (REPLACED, b1, old1)"
  shows "items b \<noteq> [] \<and> old1 = hd (items b) \<and>
         mset (items b1) + {#old1#} = mset (items b) + {#item#}"
  using assms
  by (auto simp: add_item_def items_note_rejected mset_heap_push
      split: if_splits list.splits)

lemma process_REPLACED:
  assumes "process upd item key_ptr vsdoc mcmp c = Some (REPLACED, item1, c1)"
  shows "entry_count c1 = entry_count c \<and> dups_ignored c1 = dups_ignored c + 1 \<and>
         (\<exists>b b1. table c (collapse_key item1) = Some b \<and>
                  table c1 (collapse_key item1) = Some b1 \<and>
                  items b \<noteq> [] \<and> old_item c1 = hd (items b) \<and>
                  mset (items b1) + {#old_item c1#} = mset (items b) + {#item1#})"
proof -
  define key where "key = (case key_ptr of Some k \<Rightarrow> k | None \<Rightarrow> vsdoc (slot c))"
  from assms have active: "collapse_max c \<noteq> 0"
    by (auto simp: process_def)
  from assms active have keyed: "key \<noteq> []"
    by (auto simp: process_def key_def Let_def)
  from assms active keyed obtain b where b: "table c key = Some b"
    by (cases "table c key") (auto simp: process_def key_def [symmetric] Let_def)
  from assms active keyed b obtain b1 old1 where
    ai: "add_item upd (set_collapse_key key item) (collapse_max c) mcmp (old_item c) b
           = Some (REPLACED, b1, old1)"
    and i1: "item1 = set_collapse_key key item"
    and c1: "c1 = c\<lparr>docs_considered := docs_considered c + 1,
                    table := (table c)(key \<mapsto> b1), old_item := old1,
                    dups_ignored := dups_ignored c + 1\<rparr>"
    by (auto simp: process_def key_def [symmetric] Let_def
        split: option.splits collapse_result.splits)
  have k1: "collapse_key item1 = key" by (simp add: i1 set_collapse_key_def)
  have r: "items b \<noteq> [] \<and> old1 = hd (items b) \<and>
           mset (items b1) + {#old1#} = mset (items b) + {#item1#}"
    using add_item_REPLACED [OF ai] by (auto simp: i1)
  show ?thesis unfolding k1 using r b by (auto simp: c1)
qed

lemma scenario_10_30_20:
  assumes w: "weight i1 = 10" "weight i2 = 30" "weight i3 = 20"
    and K: "K \<noteq> []"
    and k1: "(case kp1 of Some k \<Rightarrow> k | None \<Rightarrow> v1 s) = K"
    and k2: "(case kp2 of Some k \<Rightarrow> k | None \<Rightarrow> v2 s) = K"
    and k3: "(case kp3 of Some k \<Rightarrow> k | None \<Rightarrow> v3 s) = K"
    and ord: "\<forall>a b. weight a \<noteq> weight b \<longrightarrow> mcmp a b = (weight b < weight a)"
  shows "\<exists>c b. process_all upd mcmp [(i1, kp1, v1), (i2, kp2, v2), (i3, kp3, v3)]
                 (Collapser_new s 1) = Some c \<and>
               table c K = Some b \<and> items b = [set_collapse_key K i2] \<and>
               old_item c = set_collapse_key [] i1 \<and>
               collapse_count b = 2 \<and>
               dups_ignored c = 2 \<and> entry_count c = 1"
proof -
  let ?c0 = "Collapser_new s 1"
  let ?b1 = "CollapseData_new (set_collapse_key K i1)"
  let ?c1 = "?c0\<lparr>docs_considered := 1, table := [K \<mapsto> ?b1], entry_count := 1\<rparr>"
  have p1: "process upd i1 kp1 v1 mcmp ?c0 = Some (ADDED, set_collapse_key K i1, ?c1)"
    using K k1 by (simp add: process_def Collapser_new_def Let_def cong: option.case_cong)
  have m2: "mcmp (set_collapse_key K i2) (set_collapse_key [] (set_collapse_key K i1))"
    using ord w by (simp add: set_collapse_key_def)
  let ?old = "set_collapse_key [] (set_collapse_key K i1)"
  let ?w2 = "upd REPLACED 0 ?old"
  let ?b2 = "\<lparr>items = [set_collapse_key K i2], next_best_weight = ?w2, collapse_count = 1\<rparr>"
  let ?c2 = "?c1\<lparr>docs_considered := 2, table := [K \<mapsto> ?b2], old_item := ?old,
                  dups_ignored := 1\<rparr>"
  have a2: "add_item upd (set_collapse_key K i2) 1 mcmp (Result_new 0 0) ?b1
              = Some (REPLACED, ?b2, ?old)"
    using m2 w by (simp add: add_item_def CollapseData_new_def note_rejected_def
        set_collapse_key_def)
  have p2: "process upd i2 kp2 v2 mcmp ?c1 = Some (REPLACED, set_collapse_key K i2, ?c2)"
    using K k2 a2 by (simp add: process_def Collapser_new_def Let_def cong: option.case_cong)
  have m3: "\<not> mcmp (set_collapse_key K i3) (set_collapse_key K i2)"
    using ord w by (simp add: set_collapse_key_def)
  let ?w3 = "upd REJECTED ?w2 (set_collapse_key K i3)"
  let ?b3 = "\<lparr>items = [set_collapse_key K i2], next_best_weight = ?w3, collapse_count = 2\<rparr>"
  let ?c3 = "?c2\<lparr>docs_considered := 3, table := [K \<mapsto> ?b3], dups_ignored := 2\<rparr>"
  have a3: "add_item upd (set_collapse_key K i3) 1 mcmp ?old ?b2 = Some (REJECTED, ?b3, ?old)"
    using m3 w by (simp add: add_item_def note_rejected_def set_collapse_key_def)
  have p3: "process upd i3 kp3 v3 mcmp ?c2 = Some (REJECTED, set_collapse_key K i3, ?c3)"
    using K k3 a3 by (simp add: process_def Collapser_new_def Let_def cong: option.case_cong)
  have run: "process_all upd mcmp [(i1, kp1, v1), (i2, kp2, v2), (i3, kp3, v3)] ?c0 = Some ?c3"
    by (simp only: process_all.simps p1 p2 p3 option.case prod.case)
  have "table ?c3 K = Some ?b3 \<and> items ?b3 = [set_collapse_key K i2] \<and>
        old_item ?c3 = set_collapse_key [] i1 \<and>
        collapse_count ?b3 = 2 \<and>
        dups_ignored ?c3 = 2 \<and> entry_count ?c3 = 1"
    by (simp add: set_collapse_key_def)
  with run show ?thesis by blast
qed

lemmas collapser_eval =
  process_def add_item_def note_rejected_def CollapseData_new_def Collapser_new_def
  Result_new_def set_collapse_key_def Let_def

section \<open>The Collapser\<close>

text \<open>
  C1: a Collapser constructed with \<open>collapse_max = k\<close> never holds a bucket with more than
  \<open>max(1, k)\<close> items. A bucket is born with one item; and for every list of candidates,
  every order, every way of updating \<open>next_best_weight\<close> and every number \<open>n\<close> of
  candidates processed so far, processing returns and every bucket of the table is within
  the bound.
\<close>

theorem C1_bucket_size_bounded:
  "length (items (CollapseData_new item)) \<le> max 1 (unat k) \<and>
   (\<exists>c. process_all upd mcmp (take n cands) (Collapser_new slot0 k) = Some c \<and>
        (\<forall>key b. table c key = Some b \<longrightarrow> length (items b) \<le> max 1 (unat k)))"
proof
  show "length (items (CollapseData_new item)) \<le> max 1 (unat k)"
    by (simp add: CollapseData_new_def)
  from process_all_table_ok [OF table_ok_new, of upd mcmp "take n cands" slot0 k]
  obtain c where run: "process_all upd mcmp (take n cands) (Collapser_new slot0 k) = Some c"
    and k: "collapse_max c = collapse_max (Collapser_new slot0 k)" and ok: "table_ok c"
    by blast
  have "collapse_max c = k" using k by (simp add: Collapser_new_def)
  with ok have "\<forall>key b. table c key = Some b \<longrightarrow> length (items b) \<le> max 1 (unat k)"
    by (simp add: table_ok_def bucket_ok_def)
  with run show "\<exists>c. process_all upd mcmp (take n cands) (Collapser_new slot0 k) = Some c \<and>
        (\<forall>key b. table c key = Some b \<longrightarrow> length (items b) \<le> max 1 (unat k))"
    by blast
qed

theorem C1_bucket_size_bounded_witness:
  "\<exists>c b. process_all (\<lambda>res nbw r. max nbw (weight r)) (\<lambda>a b. weight b < weight a)
            (take 4 [(Result_new 8 1, Some ''A'', \<lambda>s. []),
                     (Result_new 6 2, Some ''A'', \<lambda>s. []),
                     (Result_new 5 3, Some ''A'', \<lambda>s. []),
                     (Result_new 1 4, Some ''B'', \<lambda>s. [])])
            (Collapser_new 0 2) = Some c \<and>
          table c ''A'' = Some b \<and> map weight (items b) = [6, 8] \<and>
          length (items b) \<le> max 1 (unat (2 :: doccount))"
proof -
  let ?cmp = "\<lambda>a b. weight b < weight a"
  let ?upd = "\<lambda>res nbw r. max nbw (weight r)"
  let ?cands = "[(Result_new 8 1, Some ''A'', \<lambda>s. []),
                 (Result_new 6 2, Some ''A'', \<lambda>s. []),
                 (Result_new 5 3, Some ''A'', \<lambda>s. []),
                 (Result_new 1 4, Some ''B'', \<lambda>s. [])] :: candidate list"
  from C1_bucket_size_bounded [of "Result_new 8 1" 2 ?upd ?cmp 4 ?cands 0]
  obtain c where run: "process_all ?upd ?cmp (take 4 ?cands) (Collapser_new 0 2) = Some c"
    and bound: "\<forall>key b. table c key = Some b \<longrightarrow>
                  length (items b) \<le> max 1 (unat (2 :: doccount))"
    by blast
  have "\<exists>c' b. process_all ?upd ?cmp (take 4 ?cands) (Collapser_new 0 2) = Some c' \<and>
          table c' ''A'' = Some b \<and> map weight (items b) = [6, 8]"
    by (simp add: collapser_eval word_le_nat_alt)
  with run obtain b where b: "table c ''A'' = Some b" "map weight (items b) = [6, 8]"
    by auto
  with bound have "length (items b) \<le> max 1 (unat (2 :: doccount))" by blast
  with run b show ?thesis by - (rule exI [of _ c], rule exI [of _ b], simp)
qed

text \<open>
  C9: when \<open>process\<close> answers \<open>REPLACED\<close>, \<open>entry_count\<close> is what it was, \<open>dups_ignored\<close>
  is one more, and \<open>old_item\<close> holds the evicted result: the item that was in front of the
  bucket of the key, which now holds the new item in its place (one out, one in).
  The scenario: three candidates of weights 10, 30 and 20, in this order, sharing one
  non-empty key (given by pointer or read from the document), \<open>collapse_max = 1\<close>, and any
  order that ranks a higher weight first. The bucket ends with the item of weight 30,
  the item of weight 10 was evicted, \<open>dups_ignored = 2\<close> and \<open>entry_count = 1\<close>.
  Both parts hold for every way of updating \<open>next_best_weight\<close>.
\<close>

theorem C9_replaced_bookkeeping:
  "(process upd item key_ptr vsdoc mcmp c = Some (REPLACED, item1, c1) \<longrightarrow>
      entry_count c1 = entry_count c \<and> dups_ignored c1 = dups_ignored c + 1 \<and>
      (\<exists>b b1. table c (collapse_key item1) = Some b \<and>
               table c1 (collapse_key item1) = Some b1 \<and>
               items b \<noteq> [] \<and> old_item c1 = hd (items b) \<and>
               mset (items b1) + {#old_item c1#} = mset (items b) + {#item1#})) \<and>
   (weight i1 = 10 \<and> weight i2 = 30 \<and> weight i3 = 20 \<and> K \<noteq> [] \<and>
    (kp1 = Some K \<or> kp1 = None \<and> v1 s = K) \<and>
    (kp2 = Some K \<or> kp2 = None \<and> v2 s = K) \<and>
    (kp3 = Some K \<or> kp3 = None \<and> v3 s = K) \<and>
    (\<forall>a b. weight a \<noteq> weight b \<longrightarrow> cmp a b = (weight b < weight a)) \<longrightarrow>
      (\<exists>c3 b3. process_all upd cmp [(i1, kp1, v1), (i2, kp2, v2), (i3, kp3, v3)]
                  (Collapser_new s 1) = Some c3 \<and>
                table c3 K = Some b3 \<and> map weight (items b3) = [30] \<and>
                weight (old_item c3) = 10 \<and>
                dups_ignored c3 = 2 \<and> entry_count c3 = 1))"
proof (rule conjI; rule impI)
  assume "process upd item key_ptr vsdoc mcmp c = Some (REPLACED, item1, c1)"
  from process_REPLACED [OF this]
  show "entry_count c1 = entry_count c \<and> dups_ignored c1 = dups_ignored c + 1 \<and>
      (\<exists>b b1. table c (collapse_key item1) = Some b \<and>
               table c1 (collapse_key item1) = Some b1 \<and>
               items b \<noteq> [] \<and> old_item c1 = hd (items b) \<and>
               mset (items b1) + {#old_item c1#} = mset (items b) + {#item1#})" .
next
  assume h: "weight i1 = 10 \<and> weight i2 = 30 \<and> weight i3 = 20 \<and> K \<noteq> [] \<and>
    (kp1 = Some K \<or> kp1 = None \<and> v1 s = K) \<and>
    (kp2 = Some K \<or> kp2 = None \<and> v2 s = K) \<and>
    (kp3 = Some K \<or> kp3 = None \<and> v3 s = K) \<and>
    (\<forall>a b. weight a \<noteq> weight b \<longrightarrow> cmp a b = (weight b < weight a))"
  then have k1: "(case kp1 of Some k \<Rightarrow> k | None \<Rightarrow> v1 s) = K"
    and k2: "(case kp2 of Some k \<Rightarrow> k | None \<Rightarrow> v2 s) = K"
    and k3: "(case kp3 of Some k \<Rightarrow> k | None \<Rightarrow> v3 s) = K"
    by auto
  from h have w: "weight i1 = 10" "weight i2 = 30" "weight i3 = 20" and K: "K \<noteq> []"
    and ord: "\<forall>a b. weight a \<noteq> weight b \<longrightarrow> cmp a b = (weight b < weight a)"
    by simp_all
  have "\<exists>c b. process_all upd cmp [(i1, kp1, v1), (i2, kp2, v2), (i3, kp3, v3)]
                 (Collapser_new s 1) = Some c \<and>
               table c K = Some b \<and> items b = [set_collapse_key K i2] \<and>
               old_item c = set_collapse_key [] i1 \<and>
               collapse_count b = 2 \<and>
               dups_ignored c = 2 \<and> entry_count c = 1"
    using w K k1 k2 k3 ord by (rule scenario_10_30_20)
  then obtain c3 b3 where
    r: "process_all upd cmp [(i1, kp1, v1), (i2, kp2, v2), (i3, kp3, v3)] (Collapser_new s 1)
          = Some c3"
    "table c3 K = Some b3" "items b3 = [set_collapse_key K i2]"
    "old_item c3 = set_collapse_key [] i1" "dups_ignored c3 = 2" "entry_count c3 = 1"
    by blast
  have "map weight (items b3) = [30]" "weight (old_item c3) = 10"
    using r w by (simp_all add: set_collapse_key_def)
  with r show "\<exists>c3 b3. process_all upd cmp [(i1, kp1, v1), (i2, kp2, v2), (i3, kp3, v3)]
                  (Collapser_new s 1) = Some c3 \<and>
                table c3 K = Some b3 \<and> map weight (items b3) = [30] \<and>
                weight (old_item c3) = 10 \<and>
                dups_ignored c3 = 2 \<and> entry_count c3 = 1"
    by - (rule exI [of _ c3], rule exI [of _ b3], simp)
qed

theorem C9_replaced_bookkeeping_witness:
  "(\<exists>item1 c1.
      process (\<lambda>res nbw r. weight r) (Result_new 30 2) (Some ''k'') (\<lambda>s. [])
        (\<lambda>a b. weight b < weight a)
        ((Collapser_new 0 1)
           \<lparr>table := [''k'' \<mapsto> CollapseData_new (Result_new 10 1)],
            entry_count := 1, docs_considered := 1\<rparr>)
        = Some (REPLACED, item1, c1) \<and>
      entry_count c1 = 1 \<and> dups_ignored c1 = 1 \<and> old_item c1 = Result_new 10 1) \<and>
   (\<exists>c3 b3. process_all (\<lambda>res nbw r. weight r) (\<lambda>a b. weight b < weight a)
              [(Result_new 10 1, Some ''k'', \<lambda>s. []),
               (Result_new 30 2, None, \<lambda>s. ''k''),
               (Result_new 20 3, Some ''k'', \<lambda>s. [])]
              (Collapser_new 0 1) = Some c3 \<and>
            table c3 ''k'' = Some b3 \<and> map weight (items b3) = [30] \<and>
            weight (old_item c3) = 10 \<and> dups_ignored c3 = 2 \<and> entry_count c3 = 1)"
proof
  let ?cmp = "\<lambda>a b. weight b < weight a"
  let ?upd = "\<lambda>res nbw r. weight r"
  let ?c = "(Collapser_new 0 1)
        \<lparr>table := [''k'' \<mapsto> CollapseData_new (Result_new 10 1)],
         entry_count := 1, docs_considered := 1\<rparr>"
  obtain item1 c1 where
    run: "process ?upd (Result_new 30 2) (Some ''k'') (\<lambda>s. []) ?cmp ?c
            = Some (REPLACED, item1, c1)"
    by (simp add: collapser_eval)
  from C9_replaced_bookkeeping [THEN conjunct1, rule_format, OF run]
  obtain b where "entry_count c1 = entry_count ?c" "dups_ignored c1 = dups_ignored ?c + 1"
    "table ?c (collapse_key item1) = Some b" "old_item c1 = hd (items b)"
    by blast
  moreover have "collapse_key item1 = ''k''"
    using run by (auto simp: collapser_eval)
  ultimately have "entry_count c1 = 1 \<and> dups_ignored c1 = 1 \<and> old_item c1 = Result_new 10 1"
    by (auto simp: Collapser_new_def CollapseData_new_def set_collapse_key_def Result_new_def)
  with run show "\<exists>item1 c1.
      process ?upd (Result_new 30 2) (Some ''k'') (\<lambda>s. []) ?cmp ?c = Some (REPLACED, item1, c1) \<and>
      entry_count c1 = 1 \<and> dups_ignored c1 = 1 \<and> old_item c1 = Result_new 10 1"
    by blast
  show "\<exists>c3 b3. process_all ?upd ?cmp
              [(Result_new 10 1, Some ''k'', \<lambda>s. []),
               (Result_new 30 2, None, \<lambda>s. ''k''),
               (Result_new 20 3, Some ''k'', \<lambda>s. [])]
              (Collapser_new 0 1) = Some c3 \<and>
            table c3 ''k'' = Some b3 \<and> map weight (items b3) = [30] \<and>
            weight (old_item c3) = 10 \<and> dups_ignored c3 = 2 \<and> entry_count c3 = 1"
    by (rule C9_replaced_bookkeeping [THEN conjunct2, rule_format])
       (simp add: Result_new_def)
qed

section \<open>The query layer\<close>

text \<open>
  C4: with a percentage cutoff set and a sort order that puts the stored value first
  (by value, or by value then relevance, in either direction), \<open>get_mset\<close> fails with
  \<open>UnimplementedError\<close>, whatever window is asked for; it returns no result set.
\<close>

theorem C4_cutoff_with_value_sort_fails:
  "percent_cutoff e \<noteq> None \<and>
   (sort_by e = BY_VALUE vslot reverse \<or> sort_by e = BY_VALUE_THEN_RELEVANCE vslot reverse)
   \<longrightarrow> get_mset matcher e first maxitems = Inl UnimplementedError \<and>
       (\<forall>m. get_mset matcher e first maxitems \<noteq> Inr m)"
  by (auto simp: get_mset_def)

theorem C4_cutoff_with_value_sort_fails_witness:
  "get_mset (\<lambda>e first maxitems. ()) \<lparr>sort_by = BY_VALUE 0 False, percent_cutoff = Some 42\<rparr> 0 10
     = Inl UnimplementedError \<and>
   get_mset (\<lambda>e first maxitems. ()) \<lparr>sort_by = BY_VALUE 0 True, percent_cutoff = Some 42\<rparr> 0 10
     = Inl UnimplementedError \<and>
   get_mset (\<lambda>e first maxitems. ())
     \<lparr>sort_by = BY_VALUE_THEN_RELEVANCE 0 False, percent_cutoff = Some 42\<rparr> 0 10
     = Inl UnimplementedError \<and>
   get_mset (\<lambda>e first maxitems. ())
     \<lparr>sort_by = BY_VALUE_THEN_RELEVANCE 0 True, percent_cutoff = Some 42\<rparr> 0 10
     = Inl UnimplementedError"
  using
    C4_cutoff_with_value_sort_fails [of
      "\<lparr>sort_by = BY_VALUE 0 False, percent_cutoff = Some 42\<rparr>" 0 False
      "\<lambda>e first maxitems. ()" 0 10]
    C4_cutoff_with_value_sort_fails [of
      "\<lparr>sort_by = BY_VALUE 0 True, percent_cutoff = Some 42\<rparr>" 0 True
      "\<lambda>e first maxitems. ()" 0 10]
    C4_cutoff_with_value_sort_fails [of
      "\<lparr>sort_by = BY_VALUE_THEN_RELEVANCE 0 False, percent_cutoff = Some 42\<rparr>" 0 False
      "\<lambda>e first maxitems. ()" 0 10]
    C4_cutoff_with_value_sort_fails [of
      "\<lparr>sort_by = BY_VALUE_THEN_RELEVANCE 0 True, percent_cutoff = Some 42\<rparr>" 0 True
      "\<lambda>e first maxitems. ()" 0 10]
  by simp

section \<open>The multi-shard document view\<close>

text \<open>
  C7, as the code has it: a call of \<open>set_shard_document\<close> with an id that differs from the
  active one (directly, or through a \<open>set_document\<close> that passes its assertion) establishes
  the new id and drops the cached document object \<open>doc\<close>, and it leaves the cached per-slot
  value cursors \<open>valuelists\<close>, the database and the selected shard exactly as they were.
  The cursors range over a shard's value stream, not over one document; neither function
  removes them.
\<close>

theorem C7_set_shard_document_drops_doc_only:
  "(did s \<noteq> shard_did \<longrightarrow>
      did (set_shard_document shard_did s) = shard_did \<and>
      doc (set_shard_document shard_did s) = None \<and>
      valuelists (set_shard_document shard_did s) = valuelists s \<and>
      db (set_shard_document shard_did s) = db s \<and>
      current (set_shard_document shard_did s) = current s) \<and>
   (current s = shard_number gdid (length (db s)) \<and>
    shard_docid gdid (length (db s)) \<noteq> did s \<longrightarrow>
      (\<exists>s1. set_document shard_number shard_docid gdid s = Inr s1 \<and>
            did s1 = shard_docid gdid (length (db s)) \<and> doc s1 = None \<and>
            valuelists s1 = valuelists s \<and> db s1 = db s \<and> current s1 = current s))"
  by (auto simp: set_shard_document_def set_document_def)

theorem C7_set_shard_document_drops_doc_only_witness:
  "did (set_shard_document 2
     \<lparr>valuelists = [0 \<mapsto> 7::nat], db = [(), ()], current = 0, doc = Some (5::nat), did = 1\<rparr>)
     = 2 \<and>
   doc (set_shard_document 2
     \<lparr>valuelists = [0 \<mapsto> 7::nat], db = [(), ()], current = 0, doc = Some (5::nat), did = 1\<rparr>)
     = None \<and>
   valuelists (set_shard_document 2
     \<lparr>valuelists = [0 \<mapsto> 7::nat], db = [(), ()], current = 0, doc = Some (5::nat), did = 1\<rparr>)
     0 = Some 7 \<and>
   set_document (\<lambda>d n. unat (d - 1) mod n) (\<lambda>d n. (d - 1) div word_of_nat n + 1) 5
     \<lparr>valuelists = [0 \<mapsto> 7::nat], db = [(), ()], current = 0, doc = Some (5::nat), did = 1\<rparr>
     = Inr \<lparr>valuelists = [0 \<mapsto> 7::nat], db = [(), ()], current = 0, doc = None, did = 3\<rparr>"
  using
    C7_set_shard_document_drops_doc_only [of
      "\<lparr>valuelists = [0 \<mapsto> 7::nat], db = [(), ()], current = 0, doc = Some (5::nat), did = 1\<rparr>"
      2 "\<lambda>d n. unat (d - 1) mod n" 5 "\<lambda>d n. (d - 1) div word_of_nat n + 1"]
  by (auto simp: set_document_def set_shard_document_def simp flip: numeral_2_eq_2)

text \<open>
  C7, as the specification states it, fails: with the cursor of slot 0 cached while
  document 1 is active, moving to document 2 keeps that cursor in the cache.
\<close>

theorem C7_cursors_dropped_counterexample:
  "did \<lparr>valuelists = [0 \<mapsto> 7::nat], db = [(), ()], current = 0, doc = Some (5::nat), did = 1\<rparr>
     \<noteq> 2 \<and>
   valuelists (set_shard_document 2
     \<lparr>valuelists = [0 \<mapsto> 7::nat], db = [(), ()], current = 0, doc = Some (5::nat), did = 1\<rparr>)
     0 = Some 7"
  by (simp add: set_shard_document_def)

text \<open>
  C8: \<open>set_document\<close> compares the shard resolved from the global id and the shard count
  with \<open>current\<close>. On a mismatch the call ends in the assertion fault and no state is
  produced; when the caller selected the owning shard the call succeeds, is exactly
  \<open>set_shard_document\<close> on the resolved shard-local id, and leaves \<open>current\<close> and the shard
  count as they were.
\<close>

theorem C8_set_document_asserts_shard:
  "(current s \<noteq> shard_number gdid (length (db s)) \<longrightarrow>
      set_document shard_number shard_docid gdid s = Inl AssertionError) \<and>
   (current s = shard_number gdid (length (db s)) \<longrightarrow>
      set_document shard_number shard_docid gdid s
        = Inr (set_shard_document (shard_docid gdid (length (db s))) s) \<and>
      current (set_shard_document (shard_docid gdid (length (db s))) s) = current s \<and>
      db (set_shard_document (shard_docid gdid (length (db s))) s) = db s)"
  by (simp add: set_document_def set_shard_document_def)

theorem C8_set_document_asserts_shard_witness:
  "set_document (\<lambda>d n. unat (d - 1) mod n) (\<lambda>d n. (d - 1) div word_of_nat n + 1) 4
     \<lparr>valuelists = Map.empty :: valueno \<rightharpoonup> nat, db = [(), ()], current = 0,
      doc = Some (5::nat), did = 1\<rparr> = Inl AssertionError \<and>
   set_document (\<lambda>d n. unat (d - 1) mod n) (\<lambda>d n. (d - 1) div word_of_nat n + 1) 5
     \<lparr>valuelists = Map.empty :: valueno \<rightharpoonup> nat, db = [(), ()], current = 0,
      doc = Some (5::nat), did = 1\<rparr>
     = Inr \<lparr>valuelists = Map.empty, db = [(), ()], current = 0, doc = None, did = 3\<rparr>"
  using
    C8_set_document_asserts_shard [of
      "\<lparr>valuelists = Map.empty :: valueno \<rightharpoonup> nat, db = [(), ()], current = 0,
        doc = Some (5::nat), did = 1\<rparr>"
      "\<lambda>d n. unat (d - 1) mod n" 4 "\<lambda>d n. (d - 1) div word_of_nat n + 1"]
    C8_set_document_asserts_shard [of
      "\<lparr>valuelists = Map.empty :: valueno \<rightharpoonup> nat, db = [(), ()], current = 0,
        doc = Some (5::nat), did = 1\<rparr>"
      "\<lambda>d n. unat (d - 1) mod n" 5 "\<lambda>d n. (d - 1) div word_of_nat n + 1"]
  by (simp add: set_shard_document_def flip: numeral_2_eq_2)

text \<open>
  C10: \<open>set_shard_document\<close> with the id that is already active returns the state it was
  given: the document object and the cached cursors are the same as before. The same holds
  for a \<open>set_document\<close> whose global id resolves to the selected shard and the active id.
\<close>

theorem C10_same_document_changes_nothing:
  "(did s = shard_did \<longrightarrow>
      set_shard_document shard_did s = s \<and>
      doc (set_shard_document shard_did s) = doc s \<and>
      valuelists (set_shard_document shard_did s) = valuelists s) \<and>
   (current s = shard_number gdid (length (db s)) \<and>
    shard_docid gdid (length (db s)) = did s \<longrightarrow>
      set_document shard_number shard_docid gdid s = Inr s)"
  by (simp add: set_shard_document_def set_document_def)

theorem C10_same_document_changes_nothing_witness:
  "set_shard_document 3
     \<lparr>valuelists = [0 \<mapsto> 7::nat], db = [(), ()], current = 0, doc = Some (5::nat), did = 3\<rparr>
     = \<lparr>valuelists = [0 \<mapsto> 7::nat], db = [(), ()], current = 0, doc = Some (5::nat), did = 3\<rparr> \<and>
   set_document (\<lambda>d n. unat (d - 1) mod n) (\<lambda>d n. (d - 1) div word_of_nat n + 1) 5
     \<lparr>valuelists = [0 \<mapsto> 7::nat], db = [(), ()], current = 0, doc = Some (5::nat), did = 3\<rparr>
     = Inr \<lparr>valuelists = [0 \<mapsto> 7::nat], db = [(), ()], current = 0, doc = Some (5::nat),
            did = 3\<rparr>"
  using
    C10_same_document_changes_nothing [of
      "\<lparr>valuelists = [0 \<mapsto> 7::nat], db = [(), ()], current = 0, doc = Some (5::nat), did = 3\<rparr>"
      3 "\<lambda>d n. unat (d - 1) mod n" 5 "\<lambda>d n. (d - 1) div word_of_nat n + 1"]
  by (simp flip: numeral_2_eq_2)

end
